theory Spec2Isabelle
  imports Main "HOL-Library.Sublist"
begin

section \<open>Python values used by DataVisualization.py\<close>

text \<open>
  The script fetches the tables of a page, selects one, cleans it into per-team records,
  expands the year lists into one row per final, and serves three views. The model
  follows the data transformations statement by statement; the page layout and the
  plots are left out.

  A Python \<open>str\<close> is a sequence of Unicode code points, so it is modelled as a list of
  natural numbers; \<open>ascii\<close> turns an Isabelle string literal into such a sequence.
  Missing cells of a pandas table (\<open>NaN\<close>) are \<open>None\<close>.
\<close>

type_synonym pystr = "nat list"

definition ascii :: "string \<Rightarrow> pystr" where
  "ascii s = map of_char s"

text \<open>The "no data" sentinel of the year columns: the em-dash U+2014.\<close>

definition em_dash :: pystr where
  "em_dash = [8212]"

text \<open>
  The exceptions that end the script. \<open>TableNotFoundError\<close> is the dedicated error the
  specification names; no statement of the source raises it.
\<close>

datatype error = NameError | ValueError | AttributeError | OverflowError | KeyError
  | IndexError | TableNotFoundError

text \<open>\<open>needle in haystack\<close> on two strings: substring test.\<close>

fun py_in :: "pystr \<Rightarrow> pystr \<Rightarrow> bool" where
  "py_in p [] = (p = [])"
| "py_in p (c # cs) = (prefix p (c # cs) \<or> py_in p cs)"

text \<open>
  \<open>str.strip()\<close> removes the code points for which \<open>str.isspace\<close> holds from both
  ends.
\<close>

definition isspace :: "nat \<Rightarrow> bool" where
  "isspace c \<longleftrightarrow>
     (9 \<le> c \<and> c \<le> 13) \<or> (28 \<le> c \<and> c \<le> 32) \<or> c = 133 \<or> c = 160 \<or> c = 5760 \<or>
     (8192 \<le> c \<and> c \<le> 8202) \<or> c = 8232 \<or> c = 8233 \<or> c = 8239 \<or> c = 8287 \<or>
     c = 12288"

definition strip :: "pystr \<Rightarrow> pystr" where
  "strip s = rev (dropWhile isspace (rev (dropWhile isspace s)))"

text \<open>\<open>s.split(',')\<close>: the pieces between commas; there is always at least one piece.\<close>

fun split_comma :: "pystr \<Rightarrow> pystr list" where
  "split_comma [] = [[]]"
| "split_comma (c # cs) =
     (if c = 44 then [] # split_comma cs
      else (case split_comma cs of
              [] \<Rightarrow> [[c]]
            | w # ws \<Rightarrow> (c # w) # ws))"

text \<open>
  \<open>int(s)\<close> on a string, base 10, as CPython 3.11 (Unicode 14) reads it. Every code
  point from 127 on is first replaced: whitespace by a space, a decimal digit of any
  script by its ASCII digit, anything else by a question mark. Then spaces and the
  control characters 9 to 13 are skipped at both ends (not 28 to 31, which \<open>strip\<close>
  removes), an optional sign is read, then decimal digits with single underscores
  allowed between digits. A literal of more than 4300 digits is refused. Every failure
  is a \<open>ValueError\<close>.
\<close>

text \<open>The code points of the digit zero of every script; the other nine digits follow.\<close>

definition decimal_zeros :: "nat list" where
  "decimal_zeros =
     [48, 1632, 1776, 1984, 2406, 2534, 2662, 2790, 2918, 3046, 3174, 3302, 3430, 3558,
      3664, 3792, 3872, 4160, 4240, 6112, 6160, 6470, 6608, 6784, 6800, 6992, 7088, 7232,
      7248, 42528, 43216, 43264, 43472, 43504, 43600, 44016, 65296, 66720, 68912, 69734,
      69872, 69942, 70096, 70384, 70736, 70864, 71248, 71360, 71472, 71904, 72016, 72784,
      73040, 73120, 92768, 92864, 93008, 120782, 120792, 120802, 120812, 120822, 123200,
      123632, 125264, 130032]"

definition decimal :: "nat \<Rightarrow> nat option" where
  "decimal c = map_option (\<lambda>z. c - z) (find (\<lambda>z. z \<le> c \<and> c \<le> z + 9) decimal_zeros)"

definition to_ascii :: "nat \<Rightarrow> nat" where
  "to_ascii c =
     (if c < 127 then c
      else if isspace c then 32
      else (case decimal c of Some d \<Rightarrow> 48 + d | None \<Rightarrow> 63))"

definition int_space :: "nat \<Rightarrow> bool" where
  "int_space c \<longleftrightarrow> (9 \<le> c \<and> c \<le> 13) \<or> c = 32"

definition isdigit :: "nat \<Rightarrow> bool" where
  "isdigit c \<longleftrightarrow> 48 \<le> c \<and> c \<le> 57"

fun digits_rest :: "pystr \<Rightarrow> int \<Rightarrow> int option" where
  "digits_rest [] acc = Some acc"
| "digits_rest [c] acc = (if isdigit c then Some (10 * acc + (int c - 48)) else None)"
| "digits_rest (c # d # ds) acc =
     (if isdigit c then digits_rest (d # ds) (10 * acc + (int c - 48))
      else if c = 95 \<and> isdigit d then digits_rest ds (10 * acc + (int d - 48))
      else None)"

definition digits :: "pystr \<Rightarrow> int option" where
  "digits s = (case s of
       [] \<Rightarrow> None
     | c # cs \<Rightarrow>
         if isdigit c \<and> length (filter isdigit s) \<le> 4300 then digits_rest cs (int c - 48)
         else None)"

definition py_int :: "pystr \<Rightarrow> error + int" where
  "py_int s =
     (let t = rev (dropWhile int_space (rev (dropWhile int_space (map to_ascii s))));
          r = (case t of
                 [] \<Rightarrow> None
               | c # cs \<Rightarrow>
                   if c = 45 then map_option uminus (digits cs)
                   else if c = 43 then digits cs
                   else digits t)
      in case r of None \<Rightarrow> Inl ValueError | Some n \<Rightarrow> Inr n)"

section \<open>Table Selector (lines 10 to 15)\<close>

text \<open>
  A table returned by \<open>pd.read_html\<close>. \<open>columns_str\<close> is the text of
  \<open>str(table.columns)\<close>, \<open>ncols\<close> the number of columns, \<open>body\<close> the rows, read
  under the six labels that line 15 assigns. The Team and the two year columns hold text
  or are missing.

  A count cell is what pandas made of the column it stands in: a signed or an unsigned
  64-bit integer (a column of integer literals), a truth value, a floating point number
  (a column of number literals with a blank or a fraction), or text (any other column,
  blanks being \<open>NaN\<close>). \<open>Float64 m e\<close> is the finite number \<open>m * 2 ^ e\<close>; \<open>Infinite\<close> is
  either infinity; \<open>NaN\<close> is the blank of a floating point or a text column.
\<close>

datatype cell = NaN | Infinite | Float64 int int | Int64 int | UInt64 nat | Boolean bool
  | Text pystr

record raw_row =
  raw_Team :: "pystr option"
  raw_Wins :: cell
  raw_Runners_up :: cell
  raw_Total_finals :: cell
  raw_Years_won :: "pystr option"
  raw_Years_runners_up :: "pystr option"

record raw_table =
  columns_str :: pystr
  ncols :: nat
  body :: "raw_row list"

definition header_matches :: "raw_table \<Rightarrow> bool" where
  "header_matches t \<longleftrightarrow>
     py_in (ascii ''Team'') (columns_str t) \<and> py_in (ascii ''Winners'') (columns_str t)"

text \<open>
  The loop of lines 10 to 13: \<open>wcWinnerData\<close> is bound to the first table that matches,
  and stays unbound (\<open>None\<close>) when the loop ends without a match.
\<close>

fun select_loop :: "raw_table list \<Rightarrow> raw_table option" where
  "select_loop [] = None"
| "select_loop (t # ts) = (if header_matches t then Some t else select_loop ts)"

text \<open>
  Line 15 is the first use of \<open>wcWinnerData\<close>: on an unbound name Python raises
  \<open>NameError\<close>.
\<close>

definition table_selector :: "raw_table list \<Rightarrow> error + raw_table" where
  "table_selector ts =
     (case select_loop ts of None \<Rightarrow> Inl NameError | Some t \<Rightarrow> Inr t)"

section \<open>Team Normalizer (lines 15 to 27)\<close>

text \<open>
  \<open>re.sub(r'\[.*\]', '', s)\<close>. \<open>match_len cs\<close> is the number of code points of \<open>cs\<close>
  that the greedy \<open>.*\]\<close> consumes after an opening bracket: \<open>.\<close> takes any code point
  but the newline, as many as still leave a closing bracket to end on.
\<close>

fun match_len :: "pystr \<Rightarrow> nat option" where
  "match_len [] = None"
| "match_len (c # cs) =
     (if c = 10 then None
      else (case match_len cs of
              Some n \<Rightarrow> Some (Suc n)
            | None \<Rightarrow> if c = 93 then Some 1 else None))"

function re_sub_brackets :: "pystr \<Rightarrow> pystr" where
  "re_sub_brackets [] = []"
| "re_sub_brackets (c # cs) =
     (if c = 91 then
        (case match_len cs of
           Some n \<Rightarrow> re_sub_brackets (drop n cs)
         | None \<Rightarrow> c # re_sub_brackets cs)
      else c # re_sub_brackets cs)"
  by pat_completeness auto
termination
  by (relation "measure length") auto

text \<open>\<open>Series.replace({'West Germany': 'Germany'})\<close>: whole values equal to a key.\<close>

definition replace_names :: "pystr \<Rightarrow> pystr" where
  "replace_names s = (if s = ascii ''West Germany'' then ascii ''Germany'' else s)"

definition clean_team :: "pystr \<Rightarrow> pystr" where
  "clean_team s = replace_names (strip (re_sub_brackets s))"

text \<open>
  \<open>astype(int)\<close> on one cell, where \<open>int\<close> stands for the signed 64-bit integers (Linux
  and macOS, and every platform from numpy 2 on).
  \<^item> An integer column is cast as the machine does: a signed cell holds a value of the
    64-bit range and keeps it, an unsigned cell from \<open>2 ^ 63\<close> on wraps around to a
    negative value, silently.
  \<^item> A floating point column with a blank or an infinity raises \<open>ValueError\<close>; a
    finite number loses its fraction (rounding towards zero), and outside the 64-bit
    range the cast gives \<open>- 2 ^ 63\<close>, silently (the result of the x86-64 conversion).
  \<^item> A text column is converted cell by cell with \<open>int\<close>: a blank and a string that is
    no integer literal raise \<open>ValueError\<close>, an integer outside the 64-bit range raises
    \<open>OverflowError\<close>.
\<close>

definition wrap_int64 :: "int \<Rightarrow> int" where
  "wrap_int64 n = (n + 2 ^ 63) mod 2 ^ 64 - 2 ^ 63"

definition trunc_float :: "int \<Rightarrow> int \<Rightarrow> int" where
  "trunc_float m e =
     (if 0 \<le> e then m * 2 ^ nat e
      else if 0 \<le> m then m div 2 ^ nat (- e)
      else - ((- m) div 2 ^ nat (- e)))"

definition float_to_int64 :: "int \<Rightarrow> int \<Rightarrow> int" where
  "float_to_int64 m e =
     (let v = trunc_float m e in if - (2 ^ 63) \<le> v \<and> v < 2 ^ 63 then v else - (2 ^ 63))"

definition to_int64 :: "int \<Rightarrow> error + int" where
  "to_int64 n = (if - (2 ^ 63) \<le> n \<and> n < 2 ^ 63 then Inr n else Inl OverflowError)"

definition astype_int :: "cell \<Rightarrow> error + int" where
  "astype_int c =
     (case c of
        NaN \<Rightarrow> Inl ValueError
      | Infinite \<Rightarrow> Inl ValueError
      | Float64 m e \<Rightarrow> Inr (float_to_int64 m e)
      | Int64 n \<Rightarrow> Inr (wrap_int64 n)
      | UInt64 n \<Rightarrow> Inr (wrap_int64 (int n))
      | Boolean b \<Rightarrow> Inr (if b then 1 else 0)
      | Text s \<Rightarrow> (case py_int s of Inl e \<Rightarrow> Inl e | Inr n \<Rightarrow> to_int64 n))"

fun astype_col :: "cell list \<Rightarrow> error + int list" where
  "astype_col [] = Inr []"
| "astype_col (c # cs) =
     (case astype_int c of
        Inl e \<Rightarrow> Inl e
      | Inr n \<Rightarrow> (case astype_col cs of Inl e \<Rightarrow> Inl e | Inr ns \<Rightarrow> Inr (n # ns)))"

record team_record =
  Team :: pystr
  Wins :: int
  Runners_up :: int
  Total_finals :: int
  Years_won :: "pystr option"
  Years_runners_up :: "pystr option"

text \<open>\<open>dropna(subset=['Team'])\<close>: the rows with a team name, paired with that name.\<close>

definition dropna :: "raw_row list \<Rightarrow> (pystr \<times> raw_row) list" where
  "dropna rows = List.map_filter (\<lambda>r. map_option (\<lambda>s. (s, r)) (raw_Team r)) rows"

definition make_record :: "(pystr \<times> raw_row) \<times> int \<times> int \<times> int \<Rightarrow> team_record" where
  "make_record x =
     (case x of ((s, r), w, u, f) \<Rightarrow>
        \<lparr>Team = clean_team s, Wins = w, Runners_up = u, Total_finals = f,
         Years_won = raw_Years_won r, Years_runners_up = raw_Years_runners_up r\<rparr>)"

text \<open>
  Line 15 assigns six labels and raises \<open>ValueError\<close> on a table of another width. A Team
  column that has rows but not one name is a floating point column, on which \<open>.str\<close>
  (line 20) raises \<open>AttributeError\<close>. The three count columns are converted one after
  the other, each from its first row on.
\<close>

definition team_normalizer :: "raw_table \<Rightarrow> error + team_record list" where
  "team_normalizer t =
     (if ncols t \<noteq> 6 then Inl ValueError
      else if body t \<noteq> [] \<and> list_all (\<lambda>r. raw_Team r = None) (body t)
      then Inl AttributeError
      else
        let rows = dropna (body t) in
        case astype_col (map (raw_Wins \<circ> snd) rows) of
          Inl e \<Rightarrow> Inl e
        | Inr ws \<Rightarrow>
            (case astype_col (map (raw_Runners_up \<circ> snd) rows) of
               Inl e \<Rightarrow> Inl e
             | Inr us \<Rightarrow>
                 (case astype_col (map (raw_Total_finals \<circ> snd) rows) of
                    Inl e \<Rightarrow> Inl e
                  | Inr fs \<Rightarrow> Inr (map make_record (zip rows (zip ws (zip us fs)))))))"

section \<open>Finals Expander (lines 29 to 44)\<close>

text \<open>
  One entry of \<open>matches\<close>, and one row of the frames built from it: a key that a
  dictionary lacks is a missing cell of the frame.
\<close>

record match_row =
  Year :: int
  Winner :: "pystr option"
  Runner_up :: "pystr option"

text \<open>\<open>[int(y.strip()) for y in s.split(',')]\<close>, stopping at the first bad token.\<close>

fun int_tokens :: "pystr list \<Rightarrow> error + int list" where
  "int_tokens [] = Inr []"
| "int_tokens (y # ys) =
     (case py_int (strip y) of
        Inl e \<Rightarrow> Inl e
      | Inr n \<Rightarrow> (case int_tokens ys of Inl e \<Rightarrow> Inl e | Inr ns \<Rightarrow> Inr (n # ns)))"

definition years_of :: "pystr option \<Rightarrow> error + int list" where
  "years_of field =
     (case field of
        None \<Rightarrow> Inr []
      | Some s \<Rightarrow> if s \<noteq> em_dash then int_tokens (split_comma s) else Inr [])"

definition winner_entries :: "team_record \<Rightarrow> error + match_row list" where
  "winner_entries row =
     (case years_of (Years_won row) of
        Inl e \<Rightarrow> Inl e
      | Inr years \<Rightarrow>
          Inr (map (\<lambda>year. \<lparr>Year = year, Winner = Some (Team row), Runner_up = None\<rparr>) years))"

definition runner_entries :: "team_record \<Rightarrow> error + match_row list" where
  "runner_entries row =
     (case years_of (Years_runners_up row) of
        Inl e \<Rightarrow> Inl e
      | Inr years \<Rightarrow>
          Inr (map (\<lambda>year. \<lparr>Year = year, Winner = None, Runner_up = Some (Team row)\<rparr>) years))"

text \<open>The body of the loop of line 30: what one row appends to \<open>matches\<close>.\<close>

definition row_entries :: "team_record \<Rightarrow> error + match_row list" where
  "row_entries row =
     (case winner_entries row of
        Inl e \<Rightarrow> Inl e
      | Inr ws \<Rightarrow> (case runner_entries row of Inl e \<Rightarrow> Inl e | Inr rs \<Rightarrow> Inr (ws @ rs)))"

fun matches_loop :: "team_record list \<Rightarrow> match_row list \<Rightarrow> error + match_row list" where
  "matches_loop [] matches = Inr matches"
| "matches_loop (row # rows) matches =
     (case row_entries row of
        Inl e \<Rightarrow> Inl e
      | Inr ms \<Rightarrow> matches_loop rows (matches @ ms))"

text \<open>
  Lines 42 and 43. \<open>pd.DataFrame(matches)\<close> has a column for every key that some
  dictionary has; selecting a column that no dictionary provides raises \<open>KeyError\<close>.
\<close>

definition winners :: "match_row list \<Rightarrow> error + (int \<times> pystr) list" where
  "winners matches_df =
     (if list_all (\<lambda>m. Winner m = None) matches_df then Inl KeyError
      else Inr (List.map_filter (\<lambda>m. map_option (\<lambda>w. (Year m, w)) (Winner m)) matches_df))"

definition runners :: "match_row list \<Rightarrow> error + (int \<times> pystr) list" where
  "runners matches_df =
     (if list_all (\<lambda>m. Runner_up m = None) matches_df then Inl KeyError
      else Inr (List.map_filter (\<lambda>m. map_option (\<lambda>r. (Year m, r)) (Runner_up m)) matches_df))"

text \<open>
  \<open>merge(on='Year', how='left')\<close>: the left rows in their order, each with every right
  row of its year in the right order, or once with a missing right cell.
\<close>

definition merge_row :: "(int \<times> pystr) list \<Rightarrow> int \<times> pystr \<Rightarrow> match_row list" where
  "merge_row rs lw =
     (case lw of (y, w) \<Rightarrow>
        (case map snd (filter (\<lambda>yr. fst yr = y) rs) of
           [] \<Rightarrow> [\<lparr>Year = y, Winner = Some w, Runner_up = None\<rparr>]
         | hits \<Rightarrow> map (\<lambda>r. \<lparr>Year = y, Winner = Some w, Runner_up = Some r\<rparr>) hits))"

definition merge_left :: "(int \<times> pystr) list \<Rightarrow> (int \<times> pystr) list \<Rightarrow> match_row list" where
  "merge_left ws rs = concat (map (merge_row rs) ws)"

text \<open>\<open>drop_duplicates()\<close> keeps the first of equal rows.\<close>

fun drop_duplicates :: "'a list \<Rightarrow> 'a list" where
  "drop_duplicates [] = []"
| "drop_duplicates (x # xs) = x # drop_duplicates (filter (\<lambda>y. y \<noteq> x) xs)"

definition finals_of_matches :: "match_row list \<Rightarrow> error + match_row list" where
  "finals_of_matches matches_df =
     (case winners matches_df of
        Inl e \<Rightarrow> Inl e
      | Inr ws \<Rightarrow>
          (case runners matches_df of
             Inl e \<Rightarrow> Inl e
           | Inr rs \<Rightarrow> Inr (drop_duplicates (merge_left ws rs))))"

text \<open>
  The module-level names the section reads and writes. The section starts from
  \<open>matches = []\<close> whatever the names held before.
\<close>

record globals =
  wcWinnerData :: "team_record list"
  matches :: "match_row list"
  finals_df :: "match_row list"

definition finals_expander :: "globals \<Rightarrow> error + globals" where
  "finals_expander g =
     (case matches_loop (wcWinnerData g) [] of
        Inl e \<Rightarrow> Inl e
      | Inr ms \<Rightarrow>
          (case finals_of_matches ms of
             Inl e \<Rightarrow> Inl e
           | Inr fs \<Rightarrow> Inr (g\<lparr>matches := ms, finals_df := fs\<rparr>)))"

section \<open>Country Code Mapper (lines 48 to 57)\<close>

definition iso_table :: "(pystr \<times> pystr) list" where
  "iso_table =
     [(ascii ''Brazil'', ascii ''BRA''), (ascii ''Germany'', ascii ''DEU''),
      (ascii ''Italy'', ascii ''ITA''), (ascii ''Argentina'', ascii ''ARG''),
      (ascii ''France'', ascii ''FRA''), (ascii ''Uruguay'', ascii ''URY''),
      (ascii ''England'', ascii ''GBR''), (ascii ''Spain'', ascii ''ESP''),
      (ascii ''Netherlands'', ascii ''NLD''), (ascii ''Hungary'', ascii ''HUN''),
      (ascii ''Czechoslovakia'', ascii ''CZE''), (ascii ''Sweden'', ascii ''SWE''),
      (ascii ''Croatia'', ascii ''HRV'')]"

definition iso_codes :: "pystr \<rightharpoonup> pystr" where
  "iso_codes = map_of iso_table"

record coded_record = team_record +
  Code :: "pystr option"

text \<open>Line 55: \<open>Series.map\<close> with a dictionary leaves a missing cell for an unknown key.\<close>

definition add_codes :: "team_record list \<Rightarrow> coded_record list" where
  "add_codes recs =
     map (\<lambda>r. \<lparr>Team = Team r, Wins = Wins r, Runners_up = Runners_up r,
               Total_finals = Total_finals r, Years_won = Years_won r,
               Years_runners_up = Years_runners_up r, Code = iso_codes (Team r)\<rparr>) recs"

text \<open>Line 57, on the table that line 55 has extended.\<close>

definition winners_map :: "team_record list \<Rightarrow> coded_record list" where
  "winners_map recs = filter (\<lambda>r. Wins r > 0) (add_codes recs)"

section \<open>Per-year result (lines 245 to 252)\<close>

function str_nat :: "nat \<Rightarrow> pystr" where
  "str_nat n = (if n < 10 then [48 + n] else str_nat (n div 10) @ [48 + n mod 10])"
  by pat_completeness auto
termination
  by (relation "measure id") auto

definition str_int :: "int \<Rightarrow> pystr" where
  "str_int i = (if i < 0 then 45 # str_nat (nat (- i)) else str_nat (nat i))"

text \<open>A cell inside an f-string: a missing cell prints as \<open>nan\<close>.\<close>

definition format_cell :: "pystr option \<Rightarrow> pystr" where
  "format_cell c = (case c of None \<Rightarrow> ascii ''nan'' | Some s \<Rightarrow> s)"

text \<open>The elements returned to the page: a heading, and a paragraph with its colour.\<close>

datatype html = H3 pystr | P pystr pystr

text \<open>\<open>.iloc[0]\<close> on a selection without rows raises \<open>IndexError\<close>.\<close>

definition update_result :: "match_row list \<Rightarrow> int \<Rightarrow> error + html list" where
  "update_result finals selected_year =
     (case filter (\<lambda>r. Year r = selected_year) finals of
        [] \<Rightarrow> Inl IndexError
      | result # _ \<Rightarrow>
          Inr [H3 (str_int selected_year @ ascii '' World Cup Final''),
               P (ascii ''Winner: '' @ format_cell (Winner result)) (ascii ''gold''),
               P (ascii ''Runner-up: '' @ format_cell (Runner_up result)) (ascii ''silver'')])"

section \<open>Notions of the specification\<close>

text \<open>
  A year "appears in a team's YearsWon" when it is one of the years the expander reads
  from that field; likewise for the runner-up field.
\<close>

definition won_in :: "team_record \<Rightarrow> int \<Rightarrow> bool" where
  "won_in row y = (case years_of (Years_won row) of Inl e \<Rightarrow> False | Inr ys \<Rightarrow> y \<in> set ys)"

definition runner_up_in :: "team_record \<Rightarrow> int \<Rightarrow> bool" where
  "runner_up_in row y =
     (case years_of (Years_runners_up row) of Inl e \<Rightarrow> False | Inr ys \<Rightarrow> y \<in> set ys)"

text \<open>
  A count cell "holds a non-negative integer below \<open>2 ^ 63\<close>": an integer cell with
  such a value, a truth value, a finite floating point number from zero up to but not
  including \<open>2 ^ 63\<close>, or a text of one to 4300 ASCII digits with such a value.
\<close>

definition dec_value :: "pystr \<Rightarrow> int" where
  "dec_value s = foldl (\<lambda>a c. 10 * a + (int c - 48)) 0 s"

definition nonneg_count :: "cell \<Rightarrow> bool" where
  "nonneg_count c =
     (case c of
        NaN \<Rightarrow> False
      | Infinite \<Rightarrow> False
      | Float64 m e \<Rightarrow> 0 \<le> m \<and> m * 2 ^ nat e < 2 ^ (63 + nat (- e))
      | Int64 n \<Rightarrow> 0 \<le> n \<and> n < 2 ^ 63
      | UInt64 n \<Rightarrow> n < 2 ^ 63
      | Boolean b \<Rightarrow> True
      | Text s \<Rightarrow> s \<noteq> [] \<and> list_all isdigit s \<and> length s \<le> 4300 \<and> dec_value s < 2 ^ 63)"

text \<open>
  A team name "shows a name": before its first opening bracket it has a code point that
  is not whitespace.
\<close>

definition shows_name :: "pystr \<Rightarrow> bool" where
  "shows_name s = list_ex (\<lambda>c. \<not> isspace c) (takeWhile (\<lambda>c. c \<noteq> 91) s)"

section \<open>Example data\<close>

definition initial_globals :: "team_record list \<Rightarrow> globals" where
  "initial_globals recs = \<lparr>wcWinnerData = recs, matches = [], finals_df = []\<rparr>"

definition uruguay :: team_record where
  "uruguay = \<lparr>Team = ascii ''Uruguay'', Wins = 2, Runners_up = 0, Total_finals = 2,
     Years_won = Some (ascii ''1930, 1950''), Years_runners_up = Some em_dash\<rparr>"

definition argentina :: team_record where
  "argentina = \<lparr>Team = ascii ''Argentina'', Wins = 0, Runners_up = 1, Total_finals = 1,
     Years_won = Some em_dash, Years_runners_up = Some (ascii ''1930'')\<rparr>"

definition brazil :: team_record where
  "brazil = \<lparr>Team = ascii ''Brazil'', Wins = 0, Runners_up = 1, Total_finals = 1,
     Years_won = Some em_dash, Years_runners_up = Some (ascii ''1930'')\<rparr>"

definition example_matches :: "match_row list" where
  "example_matches =
     [\<lparr>Year = 1930, Winner = Some (ascii ''Uruguay''), Runner_up = None\<rparr>,
      \<lparr>Year = 1950, Winner = Some (ascii ''Uruguay''), Runner_up = None\<rparr>,
      \<lparr>Year = 1930, Winner = None, Runner_up = Some (ascii ''Argentina'')\<rparr>]"

definition example_finals :: "match_row list" where
  "example_finals =
     [\<lparr>Year = 1930, Winner = Some (ascii ''Uruguay''), Runner_up = Some (ascii ''Argentina'')\<rparr>,
      \<lparr>Year = 1950, Winner = Some (ascii ''Uruguay''), Runner_up = None\<rparr>]"

definition example_start :: globals where
  "example_start = \<lparr>wcWinnerData = [uruguay, argentina], matches = [], finals_df = []\<rparr>"

definition example_end :: globals where
  "example_end = \<lparr>wcWinnerData = [uruguay, argentina], matches = example_matches,
     finals_df = example_finals\<rparr>"

definition netherlands :: team_record where
  "netherlands = \<lparr>Team = ascii ''Netherlands'', Wins = 0, Runners_up = 3, Total_finals = 3,
     Years_won = Some em_dash, Years_runners_up = Some (ascii ''1974, 1978, 2010'')\<rparr>"

definition spain :: team_record where
  "spain = \<lparr>Team = ascii ''Spain'', Wins = 1, Runners_up = 0, Total_finals = 1,
     Years_won = Some (ascii ''2010''), Years_runners_up = Some em_dash\<rparr>"

definition example_table :: raw_table where
  "example_table =
     \<lparr>columns_str = ascii ''Index([Team, Winners, Runners-up, Total finals, Years won, Years runners-up])'',
      ncols = 6,
      body =
        [\<lparr>raw_Team = Some (ascii ''Brazil[a]''), raw_Wins = Float64 5 0,
          raw_Runners_up = Text (ascii ''2''), raw_Total_finals = Float64 14 (- 1),
          raw_Years_won = Some (ascii ''1958, 1962, 1970, 1994, 2002''),
          raw_Years_runners_up = Some (ascii ''1950, 1998'')\<rparr>,
         \<lparr>raw_Team = None, raw_Wins = NaN, raw_Runners_up = NaN, raw_Total_finals = NaN,
          raw_Years_won = None, raw_Years_runners_up = None\<rparr>,
         \<lparr>raw_Team = Some (ascii ''West Germany''), raw_Wins = Float64 3 0,
          raw_Runners_up = Text (ascii ''3''), raw_Total_finals = Float64 6 0,
          raw_Years_won = Some (ascii ''1954, 1974, 1990''),
          raw_Years_runners_up = Some (ascii ''1966, 1982, 1986'')\<rparr>]\<rparr>"

definition example_records :: "team_record list" where
  "example_records =
     [\<lparr>Team = ascii ''Brazil'', Wins = 5, Runners_up = 2, Total_finals = 7,
       Years_won = Some (ascii ''1958, 1962, 1970, 1994, 2002''),
       Years_runners_up = Some (ascii ''1950, 1998'')\<rparr>,
      \<lparr>Team = ascii ''Germany'', Wins = 3, Runners_up = 3, Total_finals = 6,
       Years_won = Some (ascii ''1954, 1974, 1990''),
       Years_runners_up = Some (ascii ''1966, 1982, 1986'')\<rparr>]"

definition footnote_table :: raw_table where
  "footnote_table =
     \<lparr>columns_str = ascii ''Index([Team, Winners, Runners-up, Total finals, Years won, Years runners-up])'',
      ncols = 6,
      body =
        [\<lparr>raw_Team = Some (ascii ''[a]''), raw_Wins = Int64 (- 1),
          raw_Runners_up = Text (ascii ''-2''), raw_Total_finals = Int64 0,
          raw_Years_won = None, raw_Years_runners_up = None\<rparr>]\<rparr>"

definition unsigned_table :: raw_table where
  "unsigned_table =
     \<lparr>columns_str = ascii ''Index([Team, Winners, Runners-up, Total finals, Years won, Years runners-up])'',
      ncols = 6,
      body =
        [\<lparr>raw_Team = Some (ascii ''Italy''), raw_Wins = UInt64 (2 ^ 63),
          raw_Runners_up = Int64 2, raw_Total_finals = UInt64 (2 ^ 63 + 2),
          raw_Years_won = None, raw_Years_runners_up = None\<rparr>]\<rparr>"

definition unmatched_header :: raw_table where
  "unmatched_header =
     \<lparr>columns_str = ascii ''Index([Year, Winners, Score, Runners-up])'', ncols = 4, body = []\<rparr>"

definition brazil_1958 :: team_record where
  "brazil_1958 = \<lparr>Team = ascii ''Brazil'', Wins = 1, Runners_up = 0, Total_finals = 1,
     Years_won = Some (ascii ''1958''), Years_runners_up = Some em_dash\<rparr>"

section \<open>Facts about the model\<close>

lemmas string_defs = ascii_def em_dash_def strip_def isspace_def py_int_def digits_def
  isdigit_def to_ascii_def int_space_def

lemmas normalizer_defs = team_normalizer_def dropna_def astype_int_def to_int64_def
  wrap_int64_def float_to_int64_def trunc_float_def make_record_def clean_team_def
  replace_names_def

lemmas expander_defs = finals_expander_def row_entries_def winner_entries_def
  runner_entries_def years_of_def finals_of_matches_def winners_def runners_def
  merge_left_def merge_row_def

subsection \<open>Table Selector\<close>

lemma py_in_sublist: "py_in p s \<longleftrightarrow> sublist p s"
  by (induction s) (auto simp: sublist_Cons_right)

lemma select_loop_none: "(\<forall>u\<in>set ts. \<not> header_matches u) \<Longrightarrow> select_loop ts = None"
  by (induction ts) auto

lemma select_loop_first:
  "(\<forall>u\<in>set pre. \<not> header_matches u) \<Longrightarrow> header_matches t \<Longrightarrow> select_loop (pre @ t # post) = Some t"
  by (induction pre) auto

subsection \<open>Team Normalizer\<close>

lemma astype_col_length: "astype_col cs = Inr ns \<Longrightarrow> length ns = length cs"
  by (induction cs arbitrary: ns) (auto split: sum.splits)

lemma astype_col_nth:
  "astype_col cs = Inr ns \<Longrightarrow> i < length cs \<Longrightarrow> astype_int (cs ! i) = Inr (ns ! i)"
proof (induction cs arbitrary: ns i)
  case Nil
  then show ?case by simp
next
  case (Cons c cs)
  then show ?case by (cases i) (auto split: sum.splits)
qed

lemma dropna_set: "(s, r) \<in> set (dropna rows) \<longleftrightarrow> r \<in> set rows \<and> raw_Team r = Some s"
  by (induction rows) (auto simp: dropna_def split: option.splits)

lemma team_normalizer_Inr:
  assumes "team_normalizer t = Inr recs"
  obtains ws us fs where
    "astype_col (map (raw_Wins \<circ> snd) (dropna (body t))) = Inr ws"
    "astype_col (map (raw_Runners_up \<circ> snd) (dropna (body t))) = Inr us"
    "astype_col (map (raw_Total_finals \<circ> snd) (dropna (body t))) = Inr fs"
    "recs = map make_record (zip (dropna (body t)) (zip ws (zip us fs)))"
    "ncols t = 6"
  using assms by (auto simp: team_normalizer_def Let_def split: if_splits sum.splits)

lemma team_normalizer_nth:
  assumes "team_normalizer t = Inr recs"
  shows "length recs = length (dropna (body t))"
    and "i < length recs \<Longrightarrow>
      Team (recs ! i) = clean_team (fst (dropna (body t) ! i)) \<and>
      astype_int (raw_Wins (snd (dropna (body t) ! i))) = Inr (Wins (recs ! i)) \<and>
      astype_int (raw_Runners_up (snd (dropna (body t) ! i))) = Inr (Runners_up (recs ! i)) \<and>
      astype_int (raw_Total_finals (snd (dropna (body t) ! i))) = Inr (Total_finals (recs ! i)) \<and>
      Years_won (recs ! i) = raw_Years_won (snd (dropna (body t) ! i)) \<and>
      Years_runners_up (recs ! i) = raw_Years_runners_up (snd (dropna (body t) ! i))"
proof -
  obtain ws us fs where
    w: "astype_col (map (raw_Wins \<circ> snd) (dropna (body t))) = Inr ws" and
    u: "astype_col (map (raw_Runners_up \<circ> snd) (dropna (body t))) = Inr us" and
    f: "astype_col (map (raw_Total_finals \<circ> snd) (dropna (body t))) = Inr fs" and
    r: "recs = map make_record (zip (dropna (body t)) (zip ws (zip us fs)))"
    using assms by (rule team_normalizer_Inr)
  have lw: "length ws = length (dropna (body t))"
    using astype_col_length [OF w] by simp
  have lu: "length us = length (dropna (body t))"
    using astype_col_length [OF u] by simp
  have lf: "length fs = length (dropna (body t))"
    using astype_col_length [OF f] by simp
  show len: "length recs = length (dropna (body t))"
    by (simp add: r lw lu lf)
  assume i: "i < length recs"
  then have i': "i < length (dropna (body t))" using len by simp
  have rec: "recs ! i = make_record (dropna (body t) ! i, ws ! i, us ! i, fs ! i)"
    using i' by (simp add: r lw lu lf)
  have "astype_int (raw_Wins (snd (dropna (body t) ! i))) = Inr (ws ! i)"
    using astype_col_nth [OF w, of i] i' by simp
  moreover have "astype_int (raw_Runners_up (snd (dropna (body t) ! i))) = Inr (us ! i)"
    using astype_col_nth [OF u, of i] i' by simp
  moreover have "astype_int (raw_Total_finals (snd (dropna (body t) ! i))) = Inr (fs ! i)"
    using astype_col_nth [OF f, of i] i' by simp
  ultimately show "Team (recs ! i) = clean_team (fst (dropna (body t) ! i)) \<and>
      astype_int (raw_Wins (snd (dropna (body t) ! i))) = Inr (Wins (recs ! i)) \<and>
      astype_int (raw_Runners_up (snd (dropna (body t) ! i))) = Inr (Runners_up (recs ! i)) \<and>
      astype_int (raw_Total_finals (snd (dropna (body t) ! i))) = Inr (Total_finals (recs ! i)) \<and>
      Years_won (recs ! i) = raw_Years_won (snd (dropna (body t) ! i)) \<and>
      Years_runners_up (recs ! i) = raw_Years_runners_up (snd (dropna (body t) ! i))"
    by (simp add: rec make_record_def split: prod.splits)
qed

lemma example_normalized: "team_normalizer example_table = Inr example_records"
  by (simp add: normalizer_defs string_defs example_table_def example_records_def)

text \<open>
  The conversion of count cells on the edges of the 64-bit range: an unsigned cell wraps
  around, a floating point cell loses its fraction or leaves the range, and \<open>int\<close> reads
  a digit of another script but not a string that starts with the control character 28.
\<close>

lemma astype_int_edges:
  "astype_int (UInt64 (2 ^ 63)) = Inr (- (2 ^ 63))"
  "astype_int (Float64 11 (- 2)) = Inr 2"
  "astype_int (Float64 (- 11) (- 2)) = Inr (- 2)"
  "astype_int (Float64 1 64) = Inr (- (2 ^ 63))"
  "astype_int (Text [1635]) = Inr 3"
  "astype_int (Text [28, 53]) = Inl ValueError"
  by (simp_all add: astype_int_def wrap_int64_def float_to_int64_def trunc_float_def
      to_int64_def string_defs decimal_def decimal_zeros_def)

text \<open>A table whose rows all lack a name stops the normalizer.\<close>

lemma team_normalizer_nameless:
  "team_normalizer \<lparr>columns_str = h, ncols = 6,
     body = [\<lparr>raw_Team = None, raw_Wins = NaN, raw_Runners_up = NaN, raw_Total_finals = NaN,
              raw_Years_won = None, raw_Years_runners_up = None\<rparr>]\<rparr> = Inl AttributeError"
  by (simp add: team_normalizer_def)

text \<open>Whatever the cell, a converted count lies in the signed 64-bit range.\<close>

lemma wrap_int64_range: "- (2 ^ 63) \<le> wrap_int64 n \<and> wrap_int64 n < 2 ^ 63"
proof -
  have "0 \<le> (n + 2 ^ 63) mod (2 ^ 64 :: int)" "(n + 2 ^ 63) mod (2 ^ 64 :: int) < 2 ^ 64"
    by simp_all
  then show ?thesis by (simp add: wrap_int64_def)
qed

lemma wrap_int64_id: "- (2 ^ 63) \<le> n \<Longrightarrow> n < 2 ^ 63 \<Longrightarrow> wrap_int64 n = n"
  by (simp add: wrap_int64_def)

lemma astype_int_range:
  "astype_int c = Inr n \<Longrightarrow> - (2 ^ 63) \<le> n \<and> n < 2 ^ 63"
  using wrap_int64_range
  by (cases c)
    (auto simp: astype_int_def float_to_int64_def to_int64_def Let_def
      split: sum.splits if_splits)

text \<open>A text of plain digits is read as its decimal value.\<close>

lemma digits_rest_plain:
  "list_all isdigit cs \<Longrightarrow>
     digits_rest cs acc = Some (foldl (\<lambda>a c. 10 * a + (int c - 48)) acc cs)"
  by (induction cs acc rule: digits_rest.induct) simp_all

lemma foldl_digits_nonneg:
  "list_all isdigit cs \<Longrightarrow> 0 \<le> acc \<Longrightarrow> 0 \<le> foldl (\<lambda>a c. 10 * a + (int c - 48)) acc cs"
  by (induction cs arbitrary: acc) (simp_all add: isdigit_def)

lemma isdigit_to_ascii: "isdigit c \<Longrightarrow> to_ascii c = c"
  by (simp add: isdigit_def to_ascii_def)

lemma isdigit_not_space: "isdigit c \<Longrightarrow> \<not> int_space c"
  by (auto simp: isdigit_def int_space_def)

lemma dropWhile_keeps_last:
  "xs \<noteq> [] \<Longrightarrow> \<not> pr (last xs) \<Longrightarrow> rev (dropWhile pr (rev xs)) = xs"
  by (cases xs rule: rev_cases) simp_all

lemma py_int_plain:
  assumes "s \<noteq> []" and "list_all isdigit s" and "length s \<le> 4300"
  shows "py_int s = Inr (dec_value s)"
proof -
  from assms(1) obtain c cs where s: "s = c # cs" by (cases s) auto
  from assms(2) have c: "isdigit c" and cs: "list_all isdigit cs" by (simp_all add: s)
  have "map to_ascii s = s"
    using assms(2) by (induction s) (simp_all add: isdigit_to_ascii)
  moreover have "dropWhile int_space s = s"
    using c by (simp add: s isdigit_not_space)
  moreover have "isdigit (last s)"
    using assms(1,2) by (simp add: list_all_iff)
  then have "rev (dropWhile int_space (rev s)) = s"
    using assms(1) by (simp add: dropWhile_keeps_last isdigit_not_space)
  ultimately have t: "rev (dropWhile int_space (rev (dropWhile int_space (map to_ascii s)))) = s"
    by simp
  have sign: "c \<noteq> 45" "c \<noteq> 43"
    using c by (auto simp: isdigit_def)
  have "length (filter isdigit s) \<le> 4300"
    using assms(3) length_filter_le [of isdigit s] by linarith
  then have "digits s = digits_rest cs (int c - 48)"
    using c by (simp add: digits_def s)
  also have "\<dots> = Some (foldl (\<lambda>a c. 10 * a + (int c - 48)) (int c - 48) cs)"
    using cs by (rule digits_rest_plain)
  also have "\<dots> = Some (dec_value s)"
    by (simp add: dec_value_def s)
  finally have "digits s = Some (dec_value s)" .
  then show ?thesis
    unfolding py_int_def t Let_def using sign by (simp add: s)
qed

lemma int_div_less:
  assumes "0 < (d::int)" and "m < a * d"
  shows "m div d < a"
proof (rule ccontr)
  assume "\<not> m div d < a"
  then have "a \<le> m div d" by simp
  then have "a * d \<le> m div d * d" using assms(1) by (simp add: mult_right_mono)
  moreover have "m div d * d + m mod d = m" by simp
  moreover have "0 \<le> m mod d" using assms(1) by simp
  ultimately show False using assms(2) by linarith
qed

lemma dec_value_nonneg: "list_all isdigit s \<Longrightarrow> 0 \<le> dec_value s"
  unfolding dec_value_def by (rule foldl_digits_nonneg) simp_all

lemma trunc_float_nonneg:
  assumes "0 \<le> m" and "m * 2 ^ nat e < 2 ^ (63 + nat (- e))"
  shows "0 \<le> trunc_float m e \<and> trunc_float m e < 2 ^ 63"
proof (cases "0 \<le> e")
  case True
  then have "nat (- e) = 0" by simp
  with assms True show ?thesis by (simp add: trunc_float_def)
next
  case False
  then have e: "nat e = 0" by simp
  let ?d = "(2::int) ^ nat (- e)"
  have d: "0 < ?d" by simp
  from assms(2) have "m < 2 ^ 63 * ?d" by (simp add: e power_add)
  with d have "m div ?d < 2 ^ 63" by (rule int_div_less)
  moreover have "0 \<le> m div ?d" using assms(1) d by (simp add: pos_imp_zdiv_nonneg_iff)
  ultimately show ?thesis using False assms(1) by (simp add: trunc_float_def)
qed

lemma nonneg_count_astype:
  assumes "nonneg_count c"
  shows "\<exists>n. astype_int c = Inr n \<and> 0 \<le> n \<and> n < 2 ^ 63"
proof (cases c)
  case (Float64 m e)
  with assms have "0 \<le> m" "m * 2 ^ nat e < 2 ^ (63 + nat (- e))"
    by (simp_all add: nonneg_count_def)
  then have "0 \<le> trunc_float m e \<and> trunc_float m e < 2 ^ 63"
    by (rule trunc_float_nonneg)
  then show ?thesis by (simp add: Float64 astype_int_def float_to_int64_def Let_def)
next
  case (Int64 n)
  with assms have "0 \<le> n" "n < 2 ^ 63" by (simp_all add: nonneg_count_def)
  then have "wrap_int64 n = n" by (simp add: wrap_int64_def)
  with \<open>0 \<le> n\<close> \<open>n < 2 ^ 63\<close> show ?thesis by (simp add: Int64 astype_int_def)
next
  case (UInt64 n)
  with assms have "int n < 2 ^ 63" by (simp add: nonneg_count_def)
  then have "wrap_int64 (int n) = int n" by (simp add: wrap_int64_def)
  with \<open>int n < 2 ^ 63\<close> show ?thesis by (simp add: UInt64 astype_int_def)
next
  case (Boolean b)
  then show ?thesis by (simp add: astype_int_def)
next
  case (Text s)
  with assms have s: "s \<noteq> []" "list_all isdigit s" "length s \<le> 4300" "dec_value s < 2 ^ 63"
    by (simp_all add: nonneg_count_def)
  have "py_int s = Inr (dec_value s)" using s(1-3) by (rule py_int_plain)
  moreover have "0 \<le> dec_value s" using s(2) by (rule dec_value_nonneg)
  ultimately show ?thesis using s(4) by (simp add: Text astype_int_def to_int64_def)
qed (use assms in \<open>simp_all add: nonneg_count_def\<close>)

lemma astype_col_total:
  "\<forall>c\<in>set cs. \<exists>n. astype_int c = Inr n \<Longrightarrow> \<exists>ns. astype_col cs = Inr ns"
  by (induction cs) auto

lemma re_sub_brackets_prefix:
  "re_sub_brackets s =
     takeWhile (\<lambda>c. c \<noteq> 91) s @ re_sub_brackets (dropWhile (\<lambda>c. c \<noteq> 91) s)"
proof (induction s)
  case Nil
  then show ?case by simp
next
  case (Cons c cs)
  show ?case
  proof (cases "c = 91")
    case True
    then show ?thesis by simp
  next
    case False
    with Cons show ?thesis by simp
  qed
qed

lemma dropWhile_keeps: "x \<in> set xs \<Longrightarrow> \<not> pr x \<Longrightarrow> x \<in> set (dropWhile pr xs)"
  by (induction xs) auto

lemma strip_keeps: "x \<in> set xs \<Longrightarrow> \<not> isspace x \<Longrightarrow> x \<in> set (strip xs)"
  by (simp add: strip_def dropWhile_keeps)

lemma shows_name_clean: "shows_name s \<Longrightarrow> clean_team s \<noteq> []"
proof -
  assume "shows_name s"
  then obtain c where c: "c \<in> set (takeWhile (\<lambda>c. c \<noteq> 91) s)" "\<not> isspace c"
    by (auto simp: shows_name_def list_ex_iff)
  from c(1) have "c \<in> set (re_sub_brackets s)"
    by (subst re_sub_brackets_prefix) simp
  then have "c \<in> set (strip (re_sub_brackets s))" using c(2) by (rule strip_keeps)
  then have "strip (re_sub_brackets s) \<noteq> []" by auto
  then show ?thesis by (simp add: clean_team_def replace_names_def ascii_def)
qed

subsection \<open>Finals Expander\<close>

lemma drop_duplicates_set: "set (drop_duplicates xs) = set xs"
  by (induction xs rule: drop_duplicates.induct) auto

lemma drop_duplicates_distinct: "distinct (drop_duplicates xs)"
  by (induction xs rule: drop_duplicates.induct) (auto simp: drop_duplicates_set)

lemma row_entries_mem:
  assumes "row_entries row = Inr es" and "m \<in> set es"
  shows "(won_in row (Year m) \<and> Winner m = Some (Team row) \<and> Runner_up m = None) \<or>
         (runner_up_in row (Year m) \<and> Runner_up m = Some (Team row) \<and> Winner m = None)"
  using assms
  by (auto simp: row_entries_def winner_entries_def runner_entries_def won_in_def
      runner_up_in_def split: sum.splits)

lemma row_entries_won:
  assumes "row_entries row = Inr es" and "won_in row y"
  shows "\<lparr>Year = y, Winner = Some (Team row), Runner_up = None\<rparr> \<in> set es"
  using assms
  by (auto simp: row_entries_def winner_entries_def runner_entries_def won_in_def
      split: sum.splits)

lemma row_entries_runner_up:
  assumes "row_entries row = Inr es" and "runner_up_in row y"
  shows "\<lparr>Year = y, Winner = None, Runner_up = Some (Team row)\<rparr> \<in> set es"
  using assms
  by (auto simp: row_entries_def winner_entries_def runner_entries_def runner_up_in_def
      split: sum.splits)

lemma matches_loop_mem:
  "matches_loop rows acc = Inr ms \<Longrightarrow> m \<in> set ms \<Longrightarrow>
     m \<in> set acc \<or> (\<exists>row\<in>set rows. \<exists>es. row_entries row = Inr es \<and> m \<in> set es)"
proof (induction rows arbitrary: acc)
  case Nil
  then show ?case by simp
next
  case (Cons row rows)
  then obtain es where es: "row_entries row = Inr es"
    and rest: "matches_loop rows (acc @ es) = Inr ms"
    by (auto split: sum.splits)
  from Cons.IH [OF rest Cons.prems(2)] es show ?case by auto
qed

lemma matches_loop_acc: "matches_loop rows acc = Inr ms \<Longrightarrow> set acc \<subseteq> set ms"
proof (induction rows arbitrary: acc)
  case Nil
  then show ?case by simp
next
  case (Cons row rows)
  then obtain es where rest: "matches_loop rows (acc @ es) = Inr ms"
    by (auto split: sum.splits)
  from Cons.IH [OF rest] show ?case by simp
qed

lemma matches_loop_row:
  "matches_loop rows acc = Inr ms \<Longrightarrow> row \<in> set rows \<Longrightarrow>
     \<exists>es. row_entries row = Inr es \<and> set es \<subseteq> set ms"
proof (induction rows arbitrary: acc)
  case Nil
  then show ?case by simp
next
  case (Cons r rows)
  then obtain es where es: "row_entries r = Inr es"
    and rest: "matches_loop rows (acc @ es) = Inr ms"
    by (auto split: sum.splits)
  show ?case
  proof (cases "row = r")
    case True
    with es matches_loop_acc [OF rest] show ?thesis by auto
  next
    case False
    with Cons.prems(2) have "row \<in> set rows" by simp
    from Cons.IH [OF rest this] show ?thesis .
  qed
qed

lemma winners_mem:
  "winners ms = Inr ws \<Longrightarrow> (y, w) \<in> set ws \<longleftrightarrow> (\<exists>m\<in>set ms. Year m = y \<and> Winner m = Some w)"
proof -
  have "(y, w) \<in> set (List.map_filter (\<lambda>m. map_option (\<lambda>w. (Year m, w)) (Winner m)) ms)
      \<longleftrightarrow> (\<exists>m\<in>set ms. Year m = y \<and> Winner m = Some w)"
    by (induction ms) (auto split: option.splits)
  moreover assume "winners ms = Inr ws"
  ultimately show ?thesis by (auto simp: winners_def split: if_splits)
qed

lemma runners_mem:
  "runners ms = Inr rs \<Longrightarrow> (y, r) \<in> set rs \<longleftrightarrow> (\<exists>m\<in>set ms. Year m = y \<and> Runner_up m = Some r)"
proof -
  have "(y, r) \<in> set (List.map_filter (\<lambda>m. map_option (\<lambda>r. (Year m, r)) (Runner_up m)) ms)
      \<longleftrightarrow> (\<exists>m\<in>set ms. Year m = y \<and> Runner_up m = Some r)"
    by (induction ms) (auto split: option.splits)
  moreover assume "runners ms = Inr rs"
  ultimately show ?thesis by (auto simp: runners_def split: if_splits)
qed

lemma merge_row_mem:
  "r \<in> set (merge_row rs (y, w)) \<longleftrightarrow>
     (r = \<lparr>Year = y, Winner = Some w, Runner_up = None\<rparr> \<and> y \<notin> fst ` set rs) \<or>
     (\<exists>x. (y, x) \<in> set rs \<and> r = \<lparr>Year = y, Winner = Some w, Runner_up = Some x\<rparr>)"
proof (cases "map snd (filter (\<lambda>yr. fst yr = y) rs)")
  case Nil
  then have no: "y \<notin> fst ` set rs" by (auto simp: filter_empty_conv)
  then have none: "\<And>x. (y, x) \<notin> set rs" by force
  have "merge_row rs (y, w) = [\<lparr>Year = y, Winner = Some w, Runner_up = None\<rparr>]"
    using Nil by (simp add: merge_row_def)
  then show ?thesis using no none by simp
next
  case (Cons h hs)
  have "set (map snd (filter (\<lambda>yr. fst yr = y) rs)) = {x. (y, x) \<in> set rs}" by force
  with Cons have hits: "set (h # hs) = {x. (y, x) \<in> set rs}" by simp
  have "h \<in> set (h # hs)" by simp
  then have "(y, h) \<in> set rs" unfolding hits by simp
  then have "y \<in> fst ` set rs" by force
  moreover have "r \<in> set (merge_row rs (y, w)) \<longleftrightarrow>
      (\<exists>x\<in>set (h # hs). r = \<lparr>Year = y, Winner = Some w, Runner_up = Some x\<rparr>)"
    using Cons by (auto simp: merge_row_def)
  ultimately show ?thesis unfolding hits by auto
qed

lemma merge_left_mem:
  "r \<in> set (merge_left ws rs) \<longleftrightarrow>
     (\<exists>y w. (y, w) \<in> set ws \<and>
        ((r = \<lparr>Year = y, Winner = Some w, Runner_up = None\<rparr> \<and> y \<notin> fst ` set rs) \<or>
         (\<exists>x. (y, x) \<in> set rs \<and> r = \<lparr>Year = y, Winner = Some w, Runner_up = Some x\<rparr>)))"
proof -
  have "r \<in> set (merge_left ws rs) \<longleftrightarrow> (\<exists>y w. (y, w) \<in> set ws \<and> r \<in> set (merge_row rs (y, w)))"
    by (auto simp: merge_left_def)
  then show ?thesis by (simp add: merge_row_mem)
qed

lemma finals_expander_Inr:
  assumes "finals_expander g = Inr g'"
  obtains ms ws rs where
    "matches_loop (wcWinnerData g) [] = Inr ms"
    "winners ms = Inr ws" "runners ms = Inr rs"
    "g' = g\<lparr>matches := ms, finals_df := drop_duplicates (merge_left ws rs)\<rparr>"
  using assms
  by (auto simp: finals_expander_def finals_of_matches_def split: sum.splits)

lemma finals_rows:
  assumes "finals_expander g = Inr g'" and "r \<in> set (finals_df g')"
  shows "\<exists>a\<in>set (wcWinnerData g). won_in a (Year r) \<and> Winner r = Some (Team a) \<and>
           (case Runner_up r of
              None \<Rightarrow> \<forall>b\<in>set (wcWinnerData g). \<not> runner_up_in b (Year r)
            | Some x \<Rightarrow> \<exists>b\<in>set (wcWinnerData g). runner_up_in b (Year r) \<and> x = Team b)"
proof -
  from assms(1) obtain ms ws rs where
    ms: "matches_loop (wcWinnerData g) [] = Inr ms" and
    ws: "winners ms = Inr ws" and rs: "runners ms = Inr rs" and
    g': "g' = g\<lparr>matches := ms, finals_df := drop_duplicates (merge_left ws rs)\<rparr>"
    by (rule finals_expander_Inr)
  from assms(2) have "r \<in> set (merge_left ws rs)"
    by (simp add: g' drop_duplicates_set)
  then obtain y w where yw: "(y, w) \<in> set ws" and
    alt: "(r = \<lparr>Year = y, Winner = Some w, Runner_up = None\<rparr> \<and> y \<notin> fst ` set rs) \<or>
          (\<exists>x. (y, x) \<in> set rs \<and> r = \<lparr>Year = y, Winner = Some w, Runner_up = Some x\<rparr>)"
    unfolding merge_left_mem by blast
  from alt have ry: "Year r = y" and rw: "Winner r = Some w" by auto
  from yw obtain m where m: "m \<in> set ms" "Year m = y" "Winner m = Some w"
    using winners_mem [OF ws] by blast
  from matches_loop_mem [OF ms m(1)] obtain a es where
    a: "a \<in> set (wcWinnerData g)" and es: "row_entries a = Inr es" "m \<in> set es"
    by auto
  from row_entries_mem [OF es] m have aw: "won_in a y" "w = Team a" by auto
  have run: "(case Runner_up r of
              None \<Rightarrow> \<forall>b\<in>set (wcWinnerData g). \<not> runner_up_in b (Year r)
            | Some x \<Rightarrow> \<exists>b\<in>set (wcWinnerData g). runner_up_in b (Year r) \<and> x = Team b)"
  proof (cases "Runner_up r")
    case None
    with alt have no: "y \<notin> fst ` set rs" by auto
    have "\<not> runner_up_in b y" if b: "b \<in> set (wcWinnerData g)" for b
    proof
      assume rb: "runner_up_in b y"
      from matches_loop_row [OF ms b] obtain bs where
        bs: "row_entries b = Inr bs" "set bs \<subseteq> set ms" by blast
      from row_entries_runner_up [OF bs(1) rb] bs(2)
      have "\<lparr>Year = y, Winner = None, Runner_up = Some (Team b)\<rparr> \<in> set ms" by blast
      then have "(y, Team b) \<in> set rs" using runners_mem [OF rs] by force
      then have "y \<in> fst ` set rs" by force
      with no show False by simp
    qed
    with None ry show ?thesis by simp
  next
    case (Some x)
    with alt have "(y, x) \<in> set rs" by auto
    then obtain n where n: "n \<in> set ms" "Year n = y" "Runner_up n = Some x"
      using runners_mem [OF rs] by blast
    from matches_loop_mem [OF ms n(1)] obtain b bs where
      b: "b \<in> set (wcWinnerData g)" and bs: "row_entries b = Inr bs" "n \<in> set bs"
      by auto
    from row_entries_mem [OF bs] n have "runner_up_in b y" "x = Team b" by auto
    with b Some ry show ?thesis by auto
  qed
  from a aw ry rw run show ?thesis by blast
qed

lemma example_run: "finals_expander example_start = Inr example_end"
  by (simp add: expander_defs string_defs example_start_def example_end_def uruguay_def
      argentina_def example_matches_def example_finals_def)

lemma example_years:
  "won_in uruguay y \<longleftrightarrow> y = 1930 \<or> y = 1950" "\<not> won_in argentina y"
  "\<not> runner_up_in uruguay y" "runner_up_in argentina y \<longleftrightarrow> y = 1930"
  by (simp_all add: won_in_def runner_up_in_def years_of_def string_defs uruguay_def
      argentina_def)

lemma example_teams: "wcWinnerData example_start = [uruguay, argentina]"
  by (simp add: example_start_def)

text \<open>
  The left join keeps a winner without a runner-up: whenever the expander returns, a year
  that a team won and that no team lost in has its row, with a missing runner-up.
\<close>

lemma left_join_keeps_winner:
  assumes "finals_expander g = Inr g'" and "a \<in> set (wcWinnerData g)" and "won_in a y"
    and "\<forall>b\<in>set (wcWinnerData g). \<not> runner_up_in b y"
  shows "\<lparr>Year = y, Winner = Some (Team a), Runner_up = None\<rparr> \<in> set (finals_df g')"
proof -
  from assms(1) obtain ms ws rs where
    ms: "matches_loop (wcWinnerData g) [] = Inr ms" and
    ws: "winners ms = Inr ws" and rs: "runners ms = Inr rs" and
    g': "g' = g\<lparr>matches := ms, finals_df := drop_duplicates (merge_left ws rs)\<rparr>"
    by (rule finals_expander_Inr)
  from matches_loop_row [OF ms assms(2)] obtain es where
    es: "row_entries a = Inr es" "set es \<subseteq> set ms" by blast
  from row_entries_won [OF es(1) assms(3)] es(2)
  have "\<lparr>Year = y, Winner = Some (Team a), Runner_up = None\<rparr> \<in> set ms" by blast
  then have left: "(y, Team a) \<in> set ws" using winners_mem [OF ws] by force
  have "y \<notin> fst ` set rs"
  proof
    assume "y \<in> fst ` set rs"
    then obtain x where "(y, x) \<in> set rs" by force
    then obtain n where n: "n \<in> set ms" "Year n = y" "Runner_up n = Some x"
      using runners_mem [OF rs] by blast
    from matches_loop_mem [OF ms n(1)] obtain b bs where
      b: "b \<in> set (wcWinnerData g)" and bs: "row_entries b = Inr bs" "n \<in> set bs"
      by auto
    from row_entries_mem [OF bs] n have "runner_up_in b y" by auto
    with assms(4) b show False by blast
  qed
  with left have "\<lparr>Year = y, Winner = Some (Team a), Runner_up = None\<rparr> \<in> set (merge_left ws rs)"
    unfolding merge_left_mem by blast
  then show ?thesis by (simp add: g' drop_duplicates_set)
qed

section \<open>The claims\<close>

subsection \<open>C1: uniqueness of Year in the expanded table\<close>

text \<open>
  C1 as stated fails: the expander only removes rows that are equal in all three columns.
  With Uruguay the winner of 1930 and both Argentina and Brazil listed as runner-up of
  1930, the table has two different rows for 1930.
\<close>

theorem finals_year_unique_counterexample:
  "map_sum id finals_df (finals_expander (initial_globals [uruguay, argentina, brazil])) =
     Inr [\<lparr>Year = 1930, Winner = Some (ascii ''Uruguay''), Runner_up = Some (ascii ''Argentina'')\<rparr>,
          \<lparr>Year = 1930, Winner = Some (ascii ''Uruguay''), Runner_up = Some (ascii ''Brazil'')\<rparr>,
          \<lparr>Year = 1950, Winner = Some (ascii ''Uruguay''), Runner_up = None\<rparr>] \<and>
   \<lparr>Year = 1930, Winner = Some (ascii ''Uruguay''), Runner_up = Some (ascii ''Argentina'')\<rparr> \<noteq>
   \<lparr>Year = 1930, Winner = Some (ascii ''Uruguay''), Runner_up = Some (ascii ''Brazil'')\<rparr>"
  by (simp add: expander_defs string_defs initial_globals_def uruguay_def argentina_def
      brazil_def)

text \<open>
  C1, amended: when the expander returns, and no year is won by two teams of different
  names, and no year has two runners-up of different names, then no two rows of the
  expanded table share a Year.
\<close>

theorem finals_year_unique:
  assumes "finals_expander g = Inr g'"
    and "\<forall>a\<in>set (wcWinnerData g). \<forall>b\<in>set (wcWinnerData g). \<forall>y.
           won_in a y \<and> won_in b y \<longrightarrow> Team a = Team b"
    and "\<forall>a\<in>set (wcWinnerData g). \<forall>b\<in>set (wcWinnerData g). \<forall>y.
           runner_up_in a y \<and> runner_up_in b y \<longrightarrow> Team a = Team b"
  shows "distinct (map Year (finals_df g'))"
proof -
  have "inj_on Year (set (finals_df g'))"
  proof (rule inj_onI)
    fix r s
    assume r: "r \<in> set (finals_df g')" and s: "s \<in> set (finals_df g')"
      and eq: "Year r = Year s"
    from finals_rows [OF assms(1) r] obtain a where
      a: "a \<in> set (wcWinnerData g)" "won_in a (Year r)" "Winner r = Some (Team a)" and
      ra: "(case Runner_up r of
              None \<Rightarrow> \<forall>b\<in>set (wcWinnerData g). \<not> runner_up_in b (Year r)
            | Some x \<Rightarrow> \<exists>b\<in>set (wcWinnerData g). runner_up_in b (Year r) \<and> x = Team b)"
      by blast
    from finals_rows [OF assms(1) s] obtain c where
      c: "c \<in> set (wcWinnerData g)" "won_in c (Year s)" "Winner s = Some (Team c)" and
      sc: "(case Runner_up s of
              None \<Rightarrow> \<forall>b\<in>set (wcWinnerData g). \<not> runner_up_in b (Year s)
            | Some x \<Rightarrow> \<exists>b\<in>set (wcWinnerData g). runner_up_in b (Year s) \<and> x = Team b)"
      by blast
    have "Team a = Team c" using assms(2) a c eq by metis
    then have w: "Winner r = Winner s" using a c by simp
    have u: "Runner_up r = Runner_up s"
    proof (cases "Runner_up r")
      case None
      show ?thesis
      proof (cases "Runner_up s")
        case None
        with \<open>Runner_up r = None\<close> show ?thesis by simp
      next
        case (Some x)
        with sc obtain b where "b \<in> set (wcWinnerData g)" "runner_up_in b (Year s)" by auto
        with ra \<open>Runner_up r = None\<close> eq show ?thesis by auto
      qed
    next
      case (Some x)
      with ra obtain b where b: "b \<in> set (wcWinnerData g)" "runner_up_in b (Year r)" "x = Team b"
        by auto
      show ?thesis
      proof (cases "Runner_up s")
        case None
        with sc b eq show ?thesis by auto
      next
        case (Some z)
        with sc obtain d where d: "d \<in> set (wcWinnerData g)" "runner_up_in d (Year s)" "z = Team d"
          by auto
        have "Team b = Team d" using assms(3) b d eq by metis
        with Some \<open>Runner_up r = Some x\<close> b d show ?thesis by simp
      qed
    qed
    from eq w u show "r = s" by simp
  qed
  moreover have "distinct (finals_df g')"
    using assms(1) by (auto elim!: finals_expander_Inr simp: drop_duplicates_distinct)
  ultimately show ?thesis by (simp add: distinct_map)
qed

text \<open>The amended C1 on the example: Uruguay and Argentina, two finals.\<close>

theorem finals_year_unique_witness:
  "finals_expander example_start = Inr example_end \<and>
   map Year (finals_df example_end) = [1930, 1950] \<and>
   distinct (map Year (finals_df example_end))"
proof -
  have w: "\<forall>a\<in>set (wcWinnerData example_start). \<forall>b\<in>set (wcWinnerData example_start). \<forall>y.
      won_in a y \<and> won_in b y \<longrightarrow> Team a = Team b"
    by (simp add: example_teams example_years)
  have u: "\<forall>a\<in>set (wcWinnerData example_start). \<forall>b\<in>set (wcWinnerData example_start). \<forall>y.
      runner_up_in a y \<and> runner_up_in b y \<longrightarrow> Team a = Team b"
    by (simp add: example_teams example_years)
  have "distinct (map Year (finals_df example_end))"
    using example_run w u by (rule finals_year_unique)
  moreover have "map Year (finals_df example_end) = [1930, 1950]"
    by (simp add: example_end_def example_finals_def)
  ultimately show ?thesis using example_run by blast
qed

subsection \<open>C2: invariant of the normalized records\<close>

text \<open>
  C2 as stated fails: the conversion to integers keeps a negative integer, and a name
  that is only a bracketed footnote is cleaned to the empty string. The row with Team
  \<open>[a]\<close>, Wins \<open>-1\<close> and Runners-up \<open>'-2'\<close> becomes a record with an empty Team and
  both counts below zero. Even a cell that holds a non-negative integer can come out
  negative: in a column of unsigned integers, \<open>2 ^ 63\<close> wraps around to \<open>- 2 ^ 63\<close>.
\<close>

theorem team_normalizer_invariant_counterexample:
  "team_normalizer footnote_table =
     Inr [\<lparr>Team = [], Wins = - 1, Runners_up = - 2, Total_finals = 0,
           Years_won = None, Years_runners_up = None\<rparr>] \<and>
   \<not> (0::int) \<le> - 1 \<and> \<not> (0::int) \<le> - 2 \<and>
   team_normalizer unsigned_table =
     Inr [\<lparr>Team = ascii ''Italy'', Wins = - (2 ^ 63), Runners_up = 2,
           Total_finals = 2 - 2 ^ 63, Years_won = None, Years_runners_up = None\<rparr>] \<and>
   \<not> (0::int) \<le> - (2 ^ 63)"
  by (simp add: normalizer_defs string_defs footnote_table_def unsigned_table_def)

text \<open>
  C2, amended: take a table of six columns, without rows or with at least one team name,
  in which every row with a team name has three count cells that hold a non-negative
  integer below \<open>2 ^ 63\<close> and a name that shows a code point other than whitespace before
  its first opening bracket. On such a table the normalizer returns, and every record
  has Wins, Runners_up and Total_finals at least zero and a Team that is not empty and
  is the cleaned name of a row that had a name.
\<close>

theorem team_normalizer_invariant:
  assumes "ncols t = 6"
    and "body t = [] \<or> (\<exists>r\<in>set (body t). raw_Team r \<noteq> None)"
    and "\<forall>r\<in>set (body t). \<forall>s. raw_Team r = Some s \<longrightarrow>
           nonneg_count (raw_Wins r) \<and> nonneg_count (raw_Runners_up r) \<and>
           nonneg_count (raw_Total_finals r) \<and> shows_name s"
  shows "\<exists>recs. team_normalizer t = Inr recs \<and>
           (\<forall>rec\<in>set recs. 0 \<le> Wins rec \<and> 0 \<le> Runners_up rec \<and> 0 \<le> Total_finals rec \<and>
              Team rec \<noteq> [] \<and>
              (\<exists>r\<in>set (body t). \<exists>s. raw_Team r = Some s \<and> Team rec = clean_team s))"
proof -
  let ?rows = "dropna (body t)"
  have named: "nonneg_count (raw_Wins r) \<and> nonneg_count (raw_Runners_up r) \<and>
      nonneg_count (raw_Total_finals r) \<and> shows_name s \<and> r \<in> set (body t) \<and>
      raw_Team r = Some s"
    if "(s, r) \<in> set ?rows" for s r
    using that assms(3) by (auto simp: dropna_set)
  have "\<forall>c\<in>set (map (raw_Wins \<circ> snd) ?rows). \<exists>n. astype_int c = Inr n"
    using named nonneg_count_astype by fastforce
  then obtain ws where ws: "astype_col (map (raw_Wins \<circ> snd) ?rows) = Inr ws"
    using astype_col_total by blast
  have "\<forall>c\<in>set (map (raw_Runners_up \<circ> snd) ?rows). \<exists>n. astype_int c = Inr n"
    using named nonneg_count_astype by fastforce
  then obtain us where us: "astype_col (map (raw_Runners_up \<circ> snd) ?rows) = Inr us"
    using astype_col_total by blast
  have "\<forall>c\<in>set (map (raw_Total_finals \<circ> snd) ?rows). \<exists>n. astype_int c = Inr n"
    using named nonneg_count_astype by fastforce
  then obtain fs where fs: "astype_col (map (raw_Total_finals \<circ> snd) ?rows) = Inr fs"
    using astype_col_total by blast
  define recs where "recs = map make_record (zip ?rows (zip ws (zip us fs)))"
  have "\<not> (body t \<noteq> [] \<and> list_all (\<lambda>r. raw_Team r = None) (body t))"
    using assms(2) by (auto simp: list_all_iff)
  then have run: "team_normalizer t = Inr recs"
    using assms(1) ws us fs by (simp add: team_normalizer_def recs_def)
  have "0 \<le> Wins rec \<and> 0 \<le> Runners_up rec \<and> 0 \<le> Total_finals rec \<and> Team rec \<noteq> [] \<and>
      (\<exists>r\<in>set (body t). \<exists>s. raw_Team r = Some s \<and> Team rec = clean_team s)"
    if "rec \<in> set recs" for rec
  proof -
    from that obtain i where i: "i < length recs" and rec: "rec = recs ! i"
      by (auto simp: in_set_conv_nth)
    let ?p = "?rows ! i"
    have len: "length recs = length ?rows"
      using run by (rule team_normalizer_nth(1))
    then have "(fst ?p, snd ?p) \<in> set ?rows" using i by simp
    note p = named [OF this]
    note n = team_normalizer_nth(2) [OF run i]
    from nonneg_count_astype [of "raw_Wins (snd ?p)"] p n
    have w: "0 \<le> Wins rec" by (auto simp: rec)
    from nonneg_count_astype [of "raw_Runners_up (snd ?p)"] p n
    have u: "0 \<le> Runners_up rec" by (auto simp: rec)
    from nonneg_count_astype [of "raw_Total_finals (snd ?p)"] p n
    have f: "0 \<le> Total_finals rec" by (auto simp: rec)
    have team: "Team rec = clean_team (fst ?p)" using n by (simp add: rec)
    moreover have "clean_team (fst ?p) \<noteq> []" using p by (simp add: shows_name_clean)
    ultimately show ?thesis using w u f p by auto
  qed
  with run show ?thesis by blast
qed

text \<open>
  The amended C2 on the example table: Brazil, a row without a name, West Germany; the
  count columns are a floating point column and a text column.
\<close>

theorem team_normalizer_invariant_witness:
  "ncols example_table = 6 \<and> list_ex (\<lambda>r. raw_Team r \<noteq> None) (body example_table) \<and>
   list_all (\<lambda>r. raw_Team r = None \<or>
       nonneg_count (raw_Wins r) \<and> nonneg_count (raw_Runners_up r) \<and>
       nonneg_count (raw_Total_finals r) \<and> shows_name (the (raw_Team r)))
     (body example_table) \<and>
   team_normalizer example_table = Inr example_records \<and>
   list_all (\<lambda>rec. 0 \<le> Wins rec \<and> 0 \<le> Runners_up rec \<and> 0 \<le> Total_finals rec \<and>
      Team rec \<noteq> [] \<and>
      (\<exists>r\<in>set (body example_table). \<exists>s. raw_Team r = Some s \<and> Team rec = clean_team s))
     example_records"
proof -
  have six: "ncols example_table = 6"
    by (simp add: example_table_def)
  have cells: "list_all (\<lambda>r. raw_Team r = None \<or>
       nonneg_count (raw_Wins r) \<and> nonneg_count (raw_Runners_up r) \<and>
       nonneg_count (raw_Total_finals r) \<and> shows_name (the (raw_Team r)))
     (body example_table)"
    by (simp add: example_table_def nonneg_count_def shows_name_def dec_value_def
        isdigit_def isspace_def ascii_def)
  then have hyp: "\<forall>r\<in>set (body example_table). \<forall>s. raw_Team r = Some s \<longrightarrow>
           nonneg_count (raw_Wins r) \<and> nonneg_count (raw_Runners_up r) \<and>
           nonneg_count (raw_Total_finals r) \<and> shows_name s"
    unfolding list_all_iff by auto
  have named: "list_ex (\<lambda>r. raw_Team r \<noteq> None) (body example_table)"
    by (simp add: example_table_def)
  then have some: "body example_table = [] \<or> (\<exists>r\<in>set (body example_table). raw_Team r \<noteq> None)"
    unfolding list_ex_iff by blast
  from team_normalizer_invariant [OF six some hyp] six named cells show ?thesis
    unfolding list_all_iff example_normalized by auto
qed

subsection \<open>C3: the selected table\<close>

text \<open>
  C3 as stated fails in its last part: when no header matches, \<open>wcWinnerData\<close> is never
  bound and the script stops with Python's \<open>NameError\<close> at line 15, not with a dedicated
  table-not-found error.
\<close>

theorem table_selector_no_match_counterexample:
  "table_selector [unmatched_header] = Inl NameError \<and>
   table_selector [unmatched_header] \<noteq> Inl TableNotFoundError"
  by (simp add: table_selector_def header_matches_def unmatched_header_def ascii_def)

text \<open>
  C3, amended: a header matches when its text contains both \<open>Team\<close> and \<open>Winners\<close> as
  substrings; the selector returns the first table whose header matches; when no
  header matches, the script fails with \<open>NameError\<close>.
\<close>

theorem table_selector_first_match:
  "(header_matches t \<longleftrightarrow>
      (\<exists>a b. columns_str t = a @ ascii ''Team'' @ b) \<and>
      (\<exists>a b. columns_str t = a @ ascii ''Winners'' @ b)) \<and>
   ((\<forall>u\<in>set pre. \<not> header_matches u) \<longrightarrow> header_matches t \<longrightarrow>
      table_selector (pre @ t # post) = Inr t) \<and>
   ((\<forall>u\<in>set ts. \<not> header_matches u) \<longrightarrow> table_selector ts = Inl NameError)"
  by (simp add: header_matches_def py_in_sublist sublist_def table_selector_def
      select_loop_none select_loop_first)

text \<open>The amended C3 on two tables, the second one matching.\<close>

theorem table_selector_first_match_witness:
  "\<not> header_matches unmatched_header \<and> header_matches example_table \<and>
   table_selector ([unmatched_header] @ example_table # [footnote_table]) = Inr example_table \<and>
   table_selector [unmatched_header] = Inl NameError"
proof -
  have no: "\<not> header_matches unmatched_header"
    by (simp add: header_matches_def unmatched_header_def ascii_def)
  then have all_no: "\<forall>u\<in>set [unmatched_header]. \<not> header_matches u"
    by simp
  have yes: "header_matches example_table"
    by (simp add: header_matches_def example_table_def ascii_def)
  from table_selector_first_match [of example_table "[unmatched_header]" "[footnote_table]"
      "[unmatched_header]"] no all_no yes
  show ?thesis by blast
qed

subsection \<open>C4: a winner without a runner-up\<close>

text \<open>
  C4 holds whenever the expander returns (\<open>left_join_keeps_winner\<close>), but the expander
  does not always return: when no team at all has a runner-up year, the frame built
  from \<open>matches\<close> has no \<open>Runner-up\<close> column and line 43 raises \<open>KeyError\<close>. Brazil alone,
  winner of 1958, is such an input.
\<close>

theorem finals_expander_no_runner_up:
  "won_in brazil_1958 1958 \<and> \<not> runner_up_in brazil_1958 1958 \<and>
   finals_expander (initial_globals [brazil_1958]) = Inl KeyError"
  by (simp add: expander_defs string_defs won_in_def runner_up_in_def initial_globals_def
      brazil_1958_def)

subsection \<open>C5: renamed and footnoted team names\<close>

text \<open>
  C5: the normalizer gives every record the cleaned name of its row, in the order of the
  rows that have a name; cleaning \<open>West Germany\<close> gives \<open>Germany\<close> and cleaning
  \<open>Brazil[a]\<close> gives \<open>Brazil\<close>.
\<close>

theorem team_normalizer_names:
  assumes "team_normalizer t = Inr recs"
  shows "map Team recs = map (clean_team \<circ> fst) (dropna (body t)) \<and>
         clean_team (ascii ''West Germany'') = ascii ''Germany'' \<and>
         clean_team (ascii ''Brazil[a]'') = ascii ''Brazil''"
proof -
  have "map Team recs = map (clean_team \<circ> fst) (dropna (body t))"
    using team_normalizer_nth [OF assms] by (auto simp: list_eq_iff_nth_eq)
  moreover have "clean_team (ascii ''West Germany'') = ascii ''Germany''"
    by (simp add: clean_team_def ascii_def replace_names_def strip_def isspace_def)
  moreover have "clean_team (ascii ''Brazil[a]'') = ascii ''Brazil''"
    by (simp add: clean_team_def ascii_def replace_names_def strip_def isspace_def)
  ultimately show ?thesis by simp
qed

text \<open>C5 on the example table.\<close>

theorem team_normalizer_names_witness:
  "team_normalizer example_table = Inr example_records \<and>
   map Team example_records = map (clean_team \<circ> fst) (dropna (body example_table)) \<and>
   map Team example_records = [ascii ''Brazil'', ascii ''Germany'']"
proof -
  have "map Team example_records = [ascii ''Brazil'', ascii ''Germany'']"
    by (simp add: example_records_def)
  with team_normalizer_names [OF example_normalized] example_normalized show ?thesis
    by blast
qed

subsection \<open>C6: the no-data sentinel\<close>

text \<open>
  C6: a record whose Years_runners_up is the em-dash appends no runner-up entry, so all
  that it appends are its winner entries; a record whose Years_won is the em-dash
  appends no winner entry.
\<close>

theorem sentinel_contributes_nothing:
  "(Years_runners_up row = Some em_dash \<longrightarrow>
      runner_entries row = Inr [] \<and> row_entries row = winner_entries row \<and>
      (\<forall>ms. row_entries row = Inr ms \<longrightarrow> (\<forall>m\<in>set ms. Runner_up m = None))) \<and>
   (Years_won row = Some em_dash \<longrightarrow>
      winner_entries row = Inr [] \<and> row_entries row = runner_entries row \<and>
      (\<forall>ms. row_entries row = Inr ms \<longrightarrow> (\<forall>m\<in>set ms. Winner m = None)))"
  by (auto simp: runner_entries_def winner_entries_def row_entries_def years_of_def
      split: sum.splits option.splits)

text \<open>C6 on Uruguay (no runner-up years) and Argentina (no years won).\<close>

theorem sentinel_contributes_nothing_witness:
  "Years_runners_up uruguay = Some em_dash \<and> runner_entries uruguay = Inr [] \<and>
   row_entries uruguay =
     Inr [\<lparr>Year = 1930, Winner = Some (ascii ''Uruguay''), Runner_up = None\<rparr>,
          \<lparr>Year = 1950, Winner = Some (ascii ''Uruguay''), Runner_up = None\<rparr>] \<and>
   Years_won argentina = Some em_dash \<and> winner_entries argentina = Inr [] \<and>
   row_entries argentina =
     Inr [\<lparr>Year = 1930, Winner = None, Runner_up = Some (ascii ''Argentina'')\<rparr>]"
  using sentinel_contributes_nothing [of uruguay] sentinel_contributes_nothing [of argentina]
  by (simp add: expander_defs string_defs uruguay_def argentina_def)

subsection \<open>C7: running the expander again\<close>

text \<open>
  C7: the expander starts from an empty \<open>matches\<close> and reads only \<open>wcWinnerData\<close>.
  Running it on the state it has just produced gives that state again, and two states
  with the same \<open>wcWinnerData\<close> give the same \<open>matches\<close> and the same \<open>finals_df\<close>
  (or the same error).
\<close>

theorem finals_expander_rerun:
  "(finals_expander g = Inr g' \<longrightarrow> finals_expander g' = Inr g') \<and>
   (wcWinnerData g1 = wcWinnerData g2 \<longrightarrow>
      map_sum id finals_df (finals_expander g1) = map_sum id finals_df (finals_expander g2) \<and>
      map_sum id matches (finals_expander g1) = map_sum id matches (finals_expander g2))"
  by (auto simp: finals_expander_def split: sum.splits)

text \<open>C7 on the example: the second run starts from the state the first run left.\<close>

theorem finals_expander_rerun_witness:
  "finals_expander example_start = Inr example_end \<and>
   finals_expander example_end = Inr example_end \<and>
   wcWinnerData example_start = wcWinnerData example_end \<and>
   map_sum id finals_df (finals_expander example_start) =
     map_sum id finals_df (finals_expander example_end)"
proof -
  have same: "wcWinnerData example_start = wcWinnerData example_end"
    by (simp add: example_start_def example_end_def)
  from finals_expander_rerun [of example_start example_end example_start example_end]
    example_run same
  show ?thesis by blast
qed

subsection \<open>C8: the code table\<close>

text \<open>
  C8 as stated fails in its last part: line 55 looks up the code of every team, and line
  57 filters afterwards. The Netherlands, with no win, has its code in the table.
\<close>

theorem iso_codes_lookup_counterexample:
  "\<not> Wins netherlands > 0 \<and>
   map Code (add_codes [netherlands, spain]) = [Some (ascii ''NLD''), Some (ascii ''ESP'')]"
  by (simp add: netherlands_def spain_def add_codes_def iso_codes_def iso_table_def ascii_def)

text \<open>
  C8, amended: the code table has exactly 13 entries with 13 different names; a name of
  the table gets its code and any other name gets none; every record, whatever its Wins,
  gets the code of its Team; the table shown on the map is that coded table filtered to
  Wins above zero, which equals the coded table of the records with Wins above zero.
\<close>

theorem iso_codes_lookup:
  "length iso_table = 13 \<and> distinct (map fst iso_table) \<and> card (dom iso_codes) = 13 \<and>
   (\<forall>kv\<in>set iso_table. iso_codes (fst kv) = Some (snd kv)) \<and>
   (name \<notin> fst ` set iso_table \<longrightarrow> iso_codes name = None) \<and>
   map Code (add_codes recs) = map (iso_codes \<circ> Team) recs \<and>
   winners_map recs = add_codes (filter (\<lambda>r. Wins r > 0) recs)"
proof -
  have len: "length iso_table = 13"
    by (simp add: iso_table_def)
  have dist: "distinct (map fst iso_table)"
    by (simp add: iso_table_def ascii_def)
  have "dom iso_codes = set (map fst iso_table)"
    by (simp add: iso_codes_def dom_map_of_conv_image_fst)
  then have card: "card (dom iso_codes) = 13"
    using distinct_card [OF dist] len by simp
  have hit: "\<forall>kv\<in>set iso_table. iso_codes (fst kv) = Some (snd kv)"
    using dist by (simp add: iso_codes_def)
  have miss: "name \<notin> fst ` set iso_table \<longrightarrow> iso_codes name = None"
    by (simp add: iso_codes_def map_of_eq_None_iff)
  have codes: "map Code (add_codes recs) = map (iso_codes \<circ> Team) recs"
    by (simp add: add_codes_def)
  have "winners_map recs = add_codes (filter (\<lambda>r. Wins r > 0) recs)"
    by (simp add: winners_map_def add_codes_def filter_map comp_def)
  with len dist card hit miss codes show ?thesis by blast
qed

text \<open>The amended C8 on Brazil (in the table), Japan (not in it), and two records.\<close>

theorem iso_codes_lookup_witness:
  "(ascii ''Brazil'', ascii ''BRA'') \<in> set iso_table \<and>
   iso_codes (fst (ascii ''Brazil'', ascii ''BRA'')) = Some (snd (ascii ''Brazil'', ascii ''BRA'')) \<and>
   ascii ''Japan'' \<notin> fst ` set iso_table \<and> iso_codes (ascii ''Japan'') = None \<and>
   winners_map [netherlands, spain] = add_codes [spain]"
proof -
  have mem: "(ascii ''Brazil'', ascii ''BRA'') \<in> set iso_table"
    by (simp add: iso_table_def)
  have non: "ascii ''Japan'' \<notin> fst ` set iso_table"
    by (simp add: iso_table_def ascii_def)
  have win: "filter (\<lambda>r. Wins r > 0) [netherlands, spain] = [spain]"
    by (simp add: netherlands_def spain_def)
  from iso_codes_lookup [of "ascii ''Japan''" "[netherlands, spain]"] mem non
  show ?thesis unfolding win by blast
qed

subsection \<open>C9: every row has a winner\<close>

text \<open>
  C9: when the expander returns, every row of the expanded table carries as Winner the
  Team of a record that has the row's Year among its years won; a year that no record
  has among its years won is the Year of no row.
\<close>

theorem finals_rows_have_winner:
  assumes "finals_expander g = Inr g'"
  shows "(\<forall>r\<in>set (finals_df g'). \<exists>a\<in>set (wcWinnerData g).
            won_in a (Year r) \<and> Winner r = Some (Team a)) \<and>
         ((\<forall>a\<in>set (wcWinnerData g). \<not> won_in a y) \<longrightarrow> y \<notin> Year ` set (finals_df g'))"
proof -
  have rows: "\<exists>a\<in>set (wcWinnerData g). won_in a (Year r) \<and> Winner r = Some (Team a)"
    if "r \<in> set (finals_df g')" for r
    using finals_rows [OF assms that] by blast
  then show ?thesis by blast
qed

text \<open>C9 on the example; 1934 is won by nobody.\<close>

theorem finals_rows_have_winner_witness:
  "finals_expander example_start = Inr example_end \<and>
   list_all (\<lambda>r. \<exists>a\<in>set (wcWinnerData example_start).
      won_in a (Year r) \<and> Winner r = Some (Team a)) (finals_df example_end) \<and>
   \<not> won_in uruguay 1934 \<and> \<not> won_in argentina 1934 \<and>
   1934 \<notin> Year ` set (finals_df example_end)"
proof -
  have u: "\<not> won_in uruguay 1934" and a: "\<not> won_in argentina 1934"
    by (simp_all add: example_years)
  then have no: "\<forall>a\<in>set (wcWinnerData example_start). \<not> won_in a 1934"
    by (simp add: example_teams)
  from finals_rows_have_winner [OF example_run, of 1934] example_run no u a show ?thesis
    unfolding list_all_iff by blast
qed

subsection \<open>C10: the result of a year that is not in the table\<close>

text \<open>
  C10: for a year that is the Year of no row, the selection is empty and taking its
  first row raises \<open>IndexError\<close>.
\<close>

theorem update_result_missing_year:
  "selected_year \<notin> Year ` set finals \<Longrightarrow> update_result finals selected_year = Inl IndexError"
proof -
  assume "selected_year \<notin> Year ` set finals"
  then have "filter (\<lambda>r. Year r = selected_year) finals = []"
    by (auto simp: filter_empty_conv)
  then show ?thesis by (simp add: update_result_def)
qed

text \<open>C10 on the example table and the year 1934.\<close>

theorem update_result_missing_year_witness:
  "(1934::int) \<notin> Year ` set example_finals \<and>
   update_result example_finals 1934 = Inl IndexError"
proof -
  have "(1934::int) \<notin> Year ` set example_finals"
    by (simp add: example_finals_def)
  with update_result_missing_year [of 1934 example_finals] show ?thesis by blast
qed

end
